theory Spec2Isabelle
  imports Complex_Main
begin

section \<open>The browser-side session client of zpredict\<close>

text \<open>
  The token lifecycle of the web client: \<^verbatim>\<open>website/static/js/auth-utils.js\<close>
  (\<^verbatim>\<open>refreshAccessToken\<close>, \<^verbatim>\<open>authenticatedFetch\<close>, \<^verbatim>\<open>getCurrentUserInfo\<close>,
  \<^verbatim>\<open>isTokenExpired\<close>), the \<^verbatim>\<open>AuthManager\<close> class of \<^verbatim>\<open>UI/static/js/app.js\<close>
  (\<^verbatim>\<open>isTokenExpired\<close>, \<^verbatim>\<open>refreshAccessToken\<close>, \<^verbatim>\<open>login\<close>, \<^verbatim>\<open>logout\<close>), the
  chat-history page's own \<^verbatim>\<open>authenticatedFetch\<close> and the navigation bar's
  \<^verbatim>\<open>tryRefreshToken\<close>.

  Every function is a state transformer on the browser: the two storage areas, the list
  of requests handed to \<^verbatim>\<open>fetch\<close> so far, and the labels written to the console.
  What the page cannot decide (the answer of the network, \<^verbatim>\<open>atob\<close> and
  \<^verbatim>\<open>JSON.parse\<close>, the clock, the rounding of double-precision arithmetic, the
  conversions between numbers and strings) is a field of the platform. An \<^verbatim>\<open>async\<close>
  function is modelled by the state and the value (or the thrown error) its promise
  settles with.
\<close>

subsection \<open>JavaScript values\<close>

text \<open>
  A number is a double: a finite one is the rational it stands for, and \<^verbatim>\<open>NaN\<close> is
  kept apart, as a missing number, where a conversion can give it.
\<close>

datatype number = Finite rat | PlusInfinity | MinusInfinity

text \<open>\<^verbatim>\<open>a <= b\<close> and \<^verbatim>\<open>a < b\<close> on numbers.\<close>

fun num_le :: "number \<Rightarrow> number \<Rightarrow> bool" where
  "num_le (Finite x) (Finite y) = (x \<le> y)"
| "num_le MinusInfinity b = True"
| "num_le a PlusInfinity = True"
| "num_le (Finite x) MinusInfinity = False"
| "num_le PlusInfinity (Finite y) = False"
| "num_le PlusInfinity MinusInfinity = False"


text \<open>\<^verbatim>\<open>Math.floor\<close>\<close>

fun floor_number :: "number \<Rightarrow> number" where
  "floor_number (Finite x) = Finite (of_int \<lfloor>x\<rfloor>)"
| "floor_number PlusInfinity = PlusInfinity"
| "floor_number MinusInfinity = MinusInfinity"

text \<open>
  The values \<^verbatim>\<open>JSON.parse\<close> and \<^verbatim>\<open>response.json()\<close> produce, and \<^verbatim>\<open>undefined\<close> for a
  property that is not there. An object is the list of its own properties.
\<close>

datatype jsval =
    Undefined
  | JNull
  | JBool bool
  | JNum number
  | JStr string
  | JArr "jsval list"
  | JObj "(string \<times> jsval) list"

datatype exn =
    FetchFailed      \<comment> \<open>\<^verbatim>\<open>fetch\<close> rejected: no HTTP response\<close>
  | TypeError        \<comment> \<open>property read on \<^verbatim>\<open>null\<close> or \<^verbatim>\<open>undefined\<close>; conversion of an object that has no string\<close>
  | Error string     \<comment> \<open>\<^verbatim>\<open>new Error(message)\<close>\<close>

text \<open>\<^verbatim>\<open>!!v\<close>\<close>

fun truthy :: "jsval \<Rightarrow> bool" where
  "truthy Undefined = False"
| "truthy JNull = False"
| "truthy (JBool b) = b"
| "truthy (JNum n) = (n \<noteq> Finite 0)"
| "truthy (JStr s) = (s \<noteq> [])"
| "truthy (JArr xs) = True"
| "truthy (JObj kvs) = True"

text \<open>\<^verbatim>\<open>a || b\<close>\<close>

definition js_or :: "jsval \<Rightarrow> jsval \<Rightarrow> jsval" where
  "js_or a b = (if truthy a then a else b)"

text \<open>
  \<^verbatim>\<open>v.k\<close> for the property names read here (\<^verbatim>\<open>access\<close>, \<^verbatim>\<open>refresh\<close>, \<^verbatim>\<open>detail\<close>,
  \<^verbatim>\<open>message\<close>, \<^verbatim>\<open>exp\<close>, \<^verbatim>\<open>user_id\<close>, \<^verbatim>\<open>email\<close>, \<^verbatim>\<open>username\<close>, \<^verbatim>\<open>name\<close>), none of
  which a prototype supplies: it throws on \<^verbatim>\<open>null\<close> and \<^verbatim>\<open>undefined\<close>, and is
  \<^verbatim>\<open>undefined\<close> on everything that has no such property.
\<close>

fun get_prop :: "jsval \<Rightarrow> string \<Rightarrow> exn + jsval" where
  "get_prop Undefined k = Inl TypeError"
| "get_prop JNull k = Inl TypeError"
| "get_prop (JObj kvs) k = Inr (case map_of kvs k of None \<Rightarrow> Undefined | Some v \<Rightarrow> v)"
| "get_prop (JBool b) k = Inr Undefined"
| "get_prop (JNum r) k = Inr Undefined"
| "get_prop (JStr s) k = Inr Undefined"
| "get_prop (JArr xs) k = Inr Undefined"

fun join_comma :: "string list \<Rightarrow> string" where
  "join_comma [] = []"
| "join_comma [s] = s"
| "join_comma (s # t # ss) = s @ '','' @ join_comma (t # ss)"

text \<open>
  \<^verbatim>\<open>String(v)\<close>, which is also what \<^verbatim>\<open>localStorage.setItem\<close>, a template literal,
  \<^verbatim>\<open>'...' + v\<close> and an assignment to \<^verbatim>\<open>textContent\<close> apply to \<^verbatim>\<open>v\<close>. The first
  argument is the platform's rendering of a number. An object is rendered by its
  \<^verbatim>\<open>toString\<close>: the inherited one gives \<^verbatim>\<open>[object Object]\<close>, but a parsed object
  with a property of that name has a value there that cannot be called, and the
  conversion throws. An array joins the strings of its elements, so it throws when one
  of them does.
\<close>

fun to_string :: "(number \<Rightarrow> string) \<Rightarrow> jsval \<Rightarrow> exn + string"
  and element_strings :: "(number \<Rightarrow> string) \<Rightarrow> jsval list \<Rightarrow> exn + string list" where
  "to_string f Undefined = Inr ''undefined''"
| "to_string f JNull = Inr ''null''"
| "to_string f (JBool b) = Inr (if b then ''true'' else ''false'')"
| "to_string f (JNum n) = Inr (f n)"
| "to_string f (JStr s) = Inr s"
| "to_string f (JArr xs) =
     (case element_strings f xs of Inl e \<Rightarrow> Inl e | Inr ss \<Rightarrow> Inr (join_comma ss))"
| "to_string f (JObj kvs) =
     (case map_of kvs ''toString'' of
        None \<Rightarrow> Inr ''[object Object]''
      | Some v \<Rightarrow> Inl TypeError)"
| "element_strings f [] = Inr []"
| "element_strings f (x # xs) =
     (case (if x = Undefined \<or> x = JNull then Inr [] else to_string f x) of
        Inl e \<Rightarrow> Inl e
      | Inr s \<Rightarrow>
          (case element_strings f xs of Inl e \<Rightarrow> Inl e | Inr ss \<Rightarrow> Inr (s # ss)))"

subsection \<open>Requests, responses and the browser\<close>

datatype req_body =
    Raw string         \<comment> \<open>a body the caller supplied\<close>
  | Stringify jsval    \<comment> \<open>\<^verbatim>\<open>JSON.stringify(v)\<close>, kept as \<^verbatim>\<open>v\<close>\<close>

text \<open>The second argument of \<^verbatim>\<open>fetch\<close>; \<^verbatim>\<open>headers\<close> is a plain object.\<close>

record options =
  req_method :: "string option"
  headers :: "string \<rightharpoonup> string"
  body :: "req_body option"

type_synonym request = "string \<times> options"

record response =
  status :: nat
  json :: "jsval option"   \<comment> \<open>what \<^verbatim>\<open>await response.json()\<close> gives; \<open>None\<close> when it rejects\<close>

text \<open>\<^verbatim>\<open>response.ok\<close>\<close>

definition ok :: "response \<Rightarrow> bool" where
  "ok r = (200 \<le> status r \<and> status r \<le> 299)"

record browser =
  local_storage :: "string \<rightharpoonup> string"
  session_storage :: "string \<rightharpoonup> string"
  requests :: "request list"   \<comment> \<open>every call of \<^verbatim>\<open>fetch\<close>, oldest first\<close>
  console :: "string list"     \<comment> \<open>the labels of \<^verbatim>\<open>console.log\<close> and \<^verbatim>\<open>console.error\<close>\<close>

text \<open>
  The network answers a request knowing the requests made before it; \<open>None\<close> is a
  call of \<^verbatim>\<open>fetch\<close> that throws.
\<close>

record platform =
  network :: "request list \<Rightarrow> request \<Rightarrow> response option"
  atob_json_parse :: "string \<Rightarrow> jsval option"   \<comment> \<open>\<^verbatim>\<open>JSON.parse(atob(s))\<close>; \<open>None\<close> when either throws\<close>
  number_to_string :: "number \<Rightarrow> string"
  string_to_number :: "string \<Rightarrow> number option"  \<comment> \<open>\<open>None\<close> is \<^verbatim>\<open>NaN\<close>\<close>
  double_round :: "rat \<Rightarrow> number"   \<comment> \<open>the double that an exact product or quotient is rounded to\<close>
  date_now :: int                    \<comment> \<open>\<^verbatim>\<open>Date.now()\<close>, a whole number of milliseconds\<close>

definition fetch :: "platform \<Rightarrow> request \<Rightarrow> browser \<Rightarrow> browser \<times> response option" where
  "fetch env req st = (st\<lparr>requests := requests st @ [req]\<rparr>, network env (requests st) req)"

definition setItem :: "string \<Rightarrow> string \<Rightarrow> browser \<Rightarrow> browser" where
  "setItem k v st = st\<lparr>local_storage := (local_storage st)(k \<mapsto> v)\<rparr>"

definition removeItem :: "string \<Rightarrow> browser \<Rightarrow> browser" where
  "removeItem k st = st\<lparr>local_storage := (local_storage st)(k := None)\<rparr>"

definition console_log :: "string \<Rightarrow> browser \<Rightarrow> browser" where
  "console_log s st = st\<lparr>console := console st @ [s]\<rparr>"

text \<open>\<^verbatim>\<open>!!s\<close> for what \<^verbatim>\<open>getItem\<close> returns: \<^verbatim>\<open>null\<close> and the empty string are falsy.\<close>

fun present :: "string option \<Rightarrow> bool" where
  "present None = False"
| "present (Some s) = (s \<noteq> [])"

text \<open>A string or \<^verbatim>\<open>null\<close> inside a template literal.\<close>

fun template :: "string option \<Rightarrow> string" where
  "template None = ''null''"
| "template (Some s) = s"

subsection \<open>auth-utils.js\<close>

definition refresh_request :: "string \<Rightarrow> string \<Rightarrow> request" where
  "refresh_request u refreshToken =
     (u, \<lparr>req_method = Some ''POST'',
          headers = [''Content-Type'' \<mapsto> ''application/json''],
          body = Some (Stringify (JObj [(''refresh'', JStr refreshToken)]))\<rparr>)"

definition refresh_url :: string where
  "refresh_url = ''http://127.0.0.1:8000/api/token/refresh/''"

definition refreshAccessToken :: "platform \<Rightarrow> browser \<Rightarrow> browser \<times> bool" where
  "refreshAccessToken env st =
     (case local_storage st ''refresh_token'' of
        None \<Rightarrow> (st, False)
      | Some refreshToken \<Rightarrow>
          if refreshToken = [] then (st, False)
          else
            (case fetch env (refresh_request refresh_url refreshToken) st of
               (st1, None) \<Rightarrow> (console_log ''Token refresh failed:'' st1, False)
             | (st1, Some response) \<Rightarrow>
                 if ok response then
                   (case json response of
                      None \<Rightarrow> (console_log ''Token refresh failed:'' st1, False)
                    | Some data \<Rightarrow>
                        (case get_prop data ''access'' of
                           Inl e \<Rightarrow> (console_log ''Token refresh failed:'' st1, False)
                         | Inr a \<Rightarrow>
                             (case to_string (number_to_string env) a of
                                Inl e \<Rightarrow> (console_log ''Token refresh failed:'' st1, False)
                              | Inr access \<Rightarrow> (setItem ''access_token'' access st1, True))))
                 else
                   (removeItem ''refresh_token'' (removeItem ''access_token'' st1), False)))"

text \<open>
  The options of the first request: the caller's, with its headers spread over the two
  default ones.
\<close>

definition requestOptions :: "string \<Rightarrow> options \<Rightarrow> options" where
  "requestOptions token opts =
     opts\<lparr>headers := [''Authorization'' \<mapsto> ''Bearer '' @ token,
                      ''Content-Type'' \<mapsto> ''application/json''] ++ headers opts\<rparr>"

text \<open>\<^verbatim>\<open>requestOptions.headers['Authorization'] = v\<close>\<close>

definition setAuthorization :: "string \<Rightarrow> options \<Rightarrow> options" where
  "setAuthorization v ro = ro\<lparr>headers := (headers ro)(''Authorization'' \<mapsto> v)\<rparr>"

definition authenticatedFetch ::
  "platform \<Rightarrow> string \<Rightarrow> options \<Rightarrow> browser \<Rightarrow> browser \<times> (exn + response)" where
  "authenticatedFetch env u opts st =
     (case local_storage st ''access_token'' of
        None \<Rightarrow> (st, Inl (Error ''No access token available''))
      | Some token \<Rightarrow>
          if token = [] then (st, Inl (Error ''No access token available''))
          else
            (case fetch env (u, requestOptions token opts) st of
               (st1, None) \<Rightarrow> (console_log ''Authenticated fetch error:'' st1, Inl FetchFailed)
             | (st1, Some response) \<Rightarrow>
                 if status response = 401 then
                   (case refreshAccessToken env (console_log ''Token expired, attempting refresh...'' st1) of
                      (st2, True) \<Rightarrow>
                        (let newToken = local_storage st2 ''access_token''
                         in case fetch env
                                   (u, setAuthorization (''Bearer '' @ template newToken)
                                         (requestOptions token opts)) st2 of
                              (st3, None) \<Rightarrow>
                                (console_log ''Authenticated fetch error:'' st3, Inl FetchFailed)
                            | (st3, Some second) \<Rightarrow> (st3, Inr second))
                    | (st2, False) \<Rightarrow>
                        (console_log ''Authenticated fetch error:'' st2,
                         Inl (Error ''Authentication failed - please login again'')))
                 else (st1, Inr response)))"

text \<open>\<^verbatim>\<open>s.split(c)\<close> for a one-character separator.\<close>

fun split_on :: "char \<Rightarrow> string \<Rightarrow> string list" where
  "split_on c [] = [[]]"
| "split_on c (x # xs) =
     (if x = c then [] # split_on c xs
      else (case split_on c xs of [] \<Rightarrow> [[x]] | p # ps \<Rightarrow> (x # p) # ps))"

text \<open>
  \<^verbatim>\<open>token.split('.')[1]\<close> as \<^verbatim>\<open>atob\<close> receives it: a token without a dot has no
  second part, and \<^verbatim>\<open>atob(undefined)\<close> decodes the string \<^verbatim>\<open>"undefined"\<close>.
\<close>

definition payload_segment :: "string \<Rightarrow> string" where
  "payload_segment token =
     (case split_on CHR ''.'' token of
        a # s # rest \<Rightarrow> s
      | _ \<Rightarrow> ''undefined'')"

record user_info =
  user_id :: jsval
  email :: jsval
  exp_claim :: jsval   \<comment> \<open>the field \<^verbatim>\<open>exp\<close>\<close>

definition getCurrentUserInfo :: "platform \<Rightarrow> browser \<Rightarrow> browser \<times> user_info option" where
  "getCurrentUserInfo env st =
     (case local_storage st ''access_token'' of
        None \<Rightarrow> (st, None)
      | Some token \<Rightarrow>
          if token = [] then (st, None)
          else
            (case atob_json_parse env (payload_segment token) of
               None \<Rightarrow> (console_log ''Token decode error:'' st, None)
             | Some payload \<Rightarrow>
                 (case get_prop payload ''user_id'' of
                    Inl e \<Rightarrow> (console_log ''Token decode error:'' st, None)
                  | Inr uid \<Rightarrow>
                      (case get_prop payload ''email'' of
                         Inl e \<Rightarrow> (console_log ''Token decode error:'' st, None)
                       | Inr em \<Rightarrow>
                           (case get_prop payload ''exp'' of
                              Inl e \<Rightarrow> (console_log ''Token decode error:'' st, None)
                            | Inr ex \<Rightarrow>
                                (st, Some \<lparr>user_id = uid, email = em, exp_claim = ex\<rparr>))))))"

text \<open>
  \<^verbatim>\<open>Number(v)\<close>, the conversion a comparison or a product with a number applies to
  \<^verbatim>\<open>v\<close>; \<open>None\<close> is \<^verbatim>\<open>NaN\<close>. Arrays and objects go through their string, and throw
  where that throws.
\<close>

fun to_number :: "platform \<Rightarrow> jsval \<Rightarrow> exn + number option" where
  "to_number env Undefined = Inr None"
| "to_number env JNull = Inr (Some (Finite 0))"
| "to_number env (JBool b) = Inr (Some (Finite (if b then 1 else 0)))"
| "to_number env (JNum n) = Inr (Some n)"
| "to_number env (JStr s) = Inr (string_to_number env s)"
| "to_number env (JArr xs) =
     (case to_string (number_to_string env) (JArr xs) of
        Inl e \<Rightarrow> Inl e
      | Inr s \<Rightarrow> Inr (string_to_number env s))"
| "to_number env (JObj kvs) =
     (case to_string (number_to_string env) (JObj kvs) of
        Inl e \<Rightarrow> Inl e
      | Inr s \<Rightarrow> Inr (string_to_number env s))"


text \<open>\<^verbatim>\<open>Math.floor(Date.now() / 1000)\<close>\<close>

definition current_seconds :: "platform \<Rightarrow> number" where
  "current_seconds env = floor_number (double_round env (of_int (date_now env) / 1000))"

text \<open>
  The comparison with \<^verbatim>\<open>userInfo.exp\<close> is outside the \<^verbatim>\<open>try\<close> of
  \<^verbatim>\<open>getCurrentUserInfo\<close>: an \<^verbatim>\<open>exp\<close> whose conversion to a number throws makes
  \<^verbatim>\<open>isTokenExpired\<close> throw.
\<close>

definition isTokenExpired :: "platform \<Rightarrow> browser \<Rightarrow> browser \<times> (exn + bool)" where
  "isTokenExpired env st =
     (case getCurrentUserInfo env st of
        (st1, None) \<Rightarrow> (st1, Inr True)
      | (st1, Some userInfo) \<Rightarrow>
          if \<not> truthy (exp_claim userInfo) then (st1, Inr True)
          else
            (let currentTime = current_seconds env
             in case to_number env (exp_claim userInfo) of
                  Inl e \<Rightarrow> (st1, Inl e)
                | Inr None \<Rightarrow> (st1, Inr False)
                | Inr (Some e) \<Rightarrow> (st1, Inr (num_le e currentTime))))"

subsection \<open>The AuthManager class of app.js\<close>

text \<open>
  The constructor sets the two storage keys and reads the CSRF token from the page's
  cookie; the token read is the second argument here.
\<close>

record auth_manager =
  API_BASE_URL :: string
  TOKEN_KEY :: string
  REFRESH_KEY :: string
  CSRF_TOKEN :: string

definition AuthManager :: "string \<Rightarrow> string \<Rightarrow> auth_manager" where
  "AuthManager apiBaseUrl csrf =
     \<lparr>API_BASE_URL = apiBaseUrl, TOKEN_KEY = ''access_token'',
      REFRESH_KEY = ''refresh_token'', CSRF_TOKEN = csrf\<rparr>"

definition getToken :: "auth_manager \<Rightarrow> browser \<Rightarrow> string option" where
  "getToken this st = local_storage st (TOKEN_KEY this)"

definition getRefreshToken :: "auth_manager \<Rightarrow> browser \<Rightarrow> string option" where
  "getRefreshToken this st = local_storage st (REFRESH_KEY this)"

definition clearTokens :: "auth_manager \<Rightarrow> browser \<Rightarrow> browser" where
  "clearTokens this st = removeItem (REFRESH_KEY this) (removeItem (TOKEN_KEY this) st)"


definition AuthManager_refresh_request :: "auth_manager \<Rightarrow> string \<Rightarrow> request" where
  "AuthManager_refresh_request this refreshToken =
     (API_BASE_URL this @ ''/token/refresh/'',
      \<lparr>req_method = Some ''POST'',
       headers = [''Content-Type'' \<mapsto> ''application/json'',
                  ''X-CSRFToken'' \<mapsto> CSRF_TOKEN this],
       body = Some (Stringify (JObj [(''refresh'', JStr refreshToken)]))\<rparr>)"

definition AuthManager_refreshAccessToken ::
  "platform \<Rightarrow> auth_manager \<Rightarrow> string \<Rightarrow> browser \<Rightarrow> browser \<times> bool" where
  "AuthManager_refreshAccessToken env this refreshToken st =
     (case fetch env (AuthManager_refresh_request this refreshToken) st of
        (st1, None) \<Rightarrow> (console_log ''Token refresh failed:'' st1, False)
      | (st1, Some res) \<Rightarrow>
          if ok res then
            (case json res of
               None \<Rightarrow> (console_log ''Token refresh failed:'' st1, False)
             | Some data \<Rightarrow>
                 (case get_prop data ''access'' of
                    Inl e \<Rightarrow> (console_log ''Token refresh failed:'' st1, False)
                  | Inr a \<Rightarrow>
                      (case to_string (number_to_string env) a of
                         Inl e \<Rightarrow> (console_log ''Token refresh failed:'' st1, False)
                       | Inr access \<Rightarrow> (setItem (TOKEN_KEY this) access st1, True))))
          else (clearTokens this st1, False))"

record result =
  success :: bool
  message :: string

definition connection_error :: result where
  "connection_error =
     \<lparr>success = False,
      message = ''Connection error. Please check your connection and try again.''\<rparr>"

definition login_request :: "auth_manager \<Rightarrow> string \<Rightarrow> string \<Rightarrow> request" where
  "login_request this em password =
     (API_BASE_URL this @ ''/admin/login/'',
      \<lparr>req_method = Some ''POST'',
       headers = [''Content-Type'' \<mapsto> ''application/json'',
                  ''X-CSRFToken'' \<mapsto> CSRF_TOKEN this],
       body = Some (Stringify (JObj [(''email'', JStr em), (''password'', JStr password)]))\<rparr>)"

text \<open>
  Everything after the call of \<^verbatim>\<open>fetch\<close> is inside the \<^verbatim>\<open>try\<close>: a body that does not
  parse, a property read on \<^verbatim>\<open>null\<close> and a value that has no string all end in the
  \<^verbatim>\<open>catch\<close>. The access token is written before the refresh token is converted.
\<close>

definition login ::
  "platform \<Rightarrow> auth_manager \<Rightarrow> string \<Rightarrow> string \<Rightarrow> browser \<Rightarrow> browser \<times> result" where
  "login env this em password st =
     (case fetch env (login_request this em password) st of
        (st1, None) \<Rightarrow> (console_log ''Login error:'' st1, connection_error)
      | (st1, Some res) \<Rightarrow>
          if ok res then
            (case json res of
               None \<Rightarrow> (console_log ''Login error:'' st1, connection_error)
             | Some data \<Rightarrow>
                 (case get_prop data ''access'' of
                    Inl e \<Rightarrow> (console_log ''Login error:'' st1, connection_error)
                  | Inr a \<Rightarrow>
                      (case to_string (number_to_string env) a of
                         Inl e \<Rightarrow> (console_log ''Login error:'' st1, connection_error)
                       | Inr access \<Rightarrow>
                           (let st2 = setItem (TOKEN_KEY this) access st1
                            in case get_prop data ''refresh'' of
                                 Inl e \<Rightarrow> (console_log ''Login error:'' st2, connection_error)
                               | Inr r \<Rightarrow>
                                   (case to_string (number_to_string env) r of
                                      Inl e \<Rightarrow> (console_log ''Login error:'' st2, connection_error)
                                    | Inr refresh \<Rightarrow>
                                        (setItem (REFRESH_KEY this) refresh st2,
                                         \<lparr>success = True,
                                          message = ''Login successful! Welcome back.''\<rparr>))))))
          else
            (case json res of
               None \<Rightarrow> (console_log ''Login error:'' st1, connection_error)
             | Some error \<Rightarrow>
                 (case get_prop error ''detail'' of
                    Inl e \<Rightarrow> (console_log ''Login error:'' st1, connection_error)
                  | Inr d \<Rightarrow>
                      (case get_prop error ''message'' of
                         Inl e \<Rightarrow> (console_log ''Login error:'' st1, connection_error)
                       | Inr m \<Rightarrow>
                           (case to_string (number_to_string env)
                                   (js_or (js_or d m) (JStr ''Invalid credentials'')) of
                              Inl e \<Rightarrow> (console_log ''Login error:'' st1, connection_error)
                            | Inr reason \<Rightarrow>
                                (st1, \<lparr>success = False,
                                       message = ''Login failed: '' @ reason\<rparr>))))))"

definition logout :: "platform \<Rightarrow> auth_manager \<Rightarrow> browser \<Rightarrow> browser \<times> result" where
  "logout env this st =
     (let st1 =
        (case getToken this st of
           None \<Rightarrow> st
         | Some token \<Rightarrow>
             if token = [] then st
             else
               (case fetch env
                       (API_BASE_URL this @ ''/admin/logout/'',
                        \<lparr>req_method = Some ''POST'',
                         headers = [''Authorization'' \<mapsto> ''Bearer '' @ token,
                                    ''X-CSRFToken'' \<mapsto> CSRF_TOKEN this],
                         body = None\<rparr>) st of
                  (st', None) \<Rightarrow> console_log ''Logout API call failed:'' st'
                | (st', Some r) \<Rightarrow> st'))
      in (clearTokens this st1, \<lparr>success = True, message = ''Logged out successfully''\<rparr>))"

subsection \<open>The chat-history page\<close>

text \<open>\<^verbatim>\<open>a || b\<close> on what \<^verbatim>\<open>getItem\<close> returns.\<close>

definition str_or :: "string option \<Rightarrow> string option \<Rightarrow> string option" where
  "str_or a b = (if present a then a else b)"

definition setSessionItem :: "string \<Rightarrow> string \<Rightarrow> browser \<Rightarrow> browser" where
  "setSessionItem k v st = st\<lparr>session_storage := (session_storage st)(k \<mapsto> v)\<rparr>"

definition getAuthToken :: "browser \<Rightarrow> string option" where
  "getAuthToken st = str_or (local_storage st ''access_token'') (session_storage st ''access_token'')"

text \<open>
  This page's \<^verbatim>\<open>authenticatedFetch\<close>. The first \<^verbatim>\<open>fetch\<close> is outside any \<^verbatim>\<open>try\<close>; the
  refresh and the retry are inside one whose \<^verbatim>\<open>catch\<close> only logs, after which the first
  response is returned.
\<close>

definition chat_authenticatedFetch ::
  "platform \<Rightarrow> string \<Rightarrow> options \<Rightarrow> browser \<Rightarrow> browser \<times> (exn + response)" where
  "chat_authenticatedFetch env u opts st =
     (let token = getAuthToken st;
          defaultHeaders =
            (if present token
             then [''Content-Type'' \<mapsto> ''application/json'',
                   ''Authorization'' \<mapsto> ''Bearer '' @ template token]
             else [''Content-Type'' \<mapsto> ''application/json'']);
          config = opts\<lparr>headers := defaultHeaders ++ headers opts\<rparr>
      in case fetch env (u, config) st of
           (st1, None) \<Rightarrow> (st1, Inl FetchFailed)
         | (st1, Some response) \<Rightarrow>
             if status response = 401 \<and> present token then
               (let refreshToken =
                      str_or (local_storage st1 ''refresh_token'') (session_storage st1 ''refresh_token'')
                in if present refreshToken then
                     (case fetch env (refresh_request ''/api/token/refresh/'' (template refreshToken)) st1 of
                        (st2, None) \<Rightarrow> (console_log ''Token refresh failed:'' st2, Inr response)
                      | (st2, Some refreshResponse) \<Rightarrow>
                          if ok refreshResponse then
                            (case json refreshResponse of
                               None \<Rightarrow> (console_log ''Token refresh failed:'' st2, Inr response)
                             | Some data \<Rightarrow>
                                 (case get_prop data ''access'' of
                                    Inl e \<Rightarrow> (console_log ''Token refresh failed:'' st2, Inr response)
                                  | Inr a \<Rightarrow>
                                      (case to_string (number_to_string env) a of
                                         Inl e \<Rightarrow>
                                           (console_log ''Token refresh failed:'' st2, Inr response)
                                       | Inr access \<Rightarrow>
                                           (let st3 = (if present (local_storage st2 ''access_token'')
                                                       then setItem ''access_token'' access st2
                                                       else setSessionItem ''access_token'' access st2);
                                                retry = config\<lparr>headers :=
                                                  (headers config)(''Authorization'' \<mapsto> ''Bearer '' @ access)\<rparr>
                                            in case fetch env (u, retry) st3 of
                                                 (st4, None) \<Rightarrow>
                                                   (console_log ''Token refresh failed:'' st4, Inr response)
                                               | (st4, Some second) \<Rightarrow> (st4, Inr second)))))
                          else (st2, Inr response))
                   else (st1, Inr response))
             else (st1, Inr response))"

subsection \<open>The navigation bar\<close>

text \<open>
  \<^verbatim>\<open>NavbarManager.checkAuthStatus\<close> and \<^verbatim>\<open>tryRefreshToken\<close> call each other: a
  verification that is refused starts a refresh, and a refresh that succeeds starts the
  verification again, with no bound in the source. The first argument bounds the number
  of calls; \<open>None\<close> means the bound was reached. The source starts the re-check
  without awaiting it; the result here is the browser once the re-check has settled too.
  The page's elements (buttons, menu, name label) are taken to exist, and what is shown
  in them is left out; the name written into the label is converted to a string inside
  the \<^verbatim>\<open>try\<close>.
\<close>

definition clearTokensAndShowAuth :: "browser \<Rightarrow> browser" where
  "clearTokensAndShowAuth st = removeItem ''refresh_token'' (removeItem ''access_token'' st)"

fun NavbarManager_checkAuthStatus :: "nat \<Rightarrow> platform \<Rightarrow> browser \<Rightarrow> browser option"
  and tryRefreshToken :: "nat \<Rightarrow> platform \<Rightarrow> browser \<Rightarrow> browser option" where
  "NavbarManager_checkAuthStatus 0 env st = None"
| "NavbarManager_checkAuthStatus (Suc n) env st =
     (case local_storage st ''access_token'' of
        None \<Rightarrow> Some st
      | Some token \<Rightarrow>
          if token = [] then Some st
          else
            (case fetch env
                    (''/api/admin/verify/'',
                     \<lparr>req_method = None,
                      headers = [''Authorization'' \<mapsto> ''Bearer '' @ token,
                                 ''Content-Type'' \<mapsto> ''application/json''],
                      body = None\<rparr>) st of
               (st1, None) \<Rightarrow> Some (console_log ''Auth check failed:'' st1)
             | (st1, Some response) \<Rightarrow>
                 if ok response then
                   (case json response of
                      None \<Rightarrow> Some (console_log ''Auth check failed:'' st1)
                    | Some userData \<Rightarrow>
                        (case get_prop userData ''username'' of
                           Inl e \<Rightarrow> Some (console_log ''Auth check failed:'' st1)
                         | Inr username \<Rightarrow>
                             (case get_prop userData ''name'' of
                                Inl e \<Rightarrow> Some (console_log ''Auth check failed:'' st1)
                              | Inr name \<Rightarrow>
                                  (case to_string (number_to_string env)
                                          (js_or (js_or username name) (JStr ''Admin'')) of
                                     Inl e \<Rightarrow> Some (console_log ''Auth check failed:'' st1)
                                   | Inr shown \<Rightarrow> Some st1))))
                 else tryRefreshToken n env st1))"
| "tryRefreshToken 0 env st = None"
| "tryRefreshToken (Suc n) env st =
     (case local_storage st ''refresh_token'' of
        None \<Rightarrow> Some st
      | Some refreshToken \<Rightarrow>
          if refreshToken = [] then Some st
          else
            (case fetch env (refresh_request ''/api/token/refresh/'' refreshToken) st of
               (st1, None) \<Rightarrow>
                 Some (clearTokensAndShowAuth (console_log ''Token refresh failed:'' st1))
             | (st1, Some response) \<Rightarrow>
                 if ok response then
                   (case json response of
                      None \<Rightarrow>
                        Some (clearTokensAndShowAuth (console_log ''Token refresh failed:'' st1))
                    | Some data \<Rightarrow>
                        (case get_prop data ''access'' of
                           Inl e \<Rightarrow>
                             Some (clearTokensAndShowAuth (console_log ''Token refresh failed:'' st1))
                         | Inr a \<Rightarrow>
                             (case to_string (number_to_string env) a of
                                Inl e \<Rightarrow>
                                  Some (clearTokensAndShowAuth
                                          (console_log ''Token refresh failed:'' st1))
                              | Inr access \<Rightarrow>
                                  NavbarManager_checkAuthStatus n env
                                    (setItem ''access_token'' access st1))))
                 else Some (clearTokensAndShowAuth st1)))"

subsection \<open>Concrete browsers and networks\<close>

text \<open>
  The inputs at which the properties below are evaluated. None of them renders a number
  or reads one from a string, so these two conversions are arbitrary here; the only
  products and quotients they reach (5 and 6 times 1000, 5000 by 1000) are whole numbers
  and need no rounding.
\<close>

definition test_platform ::
  "(request list \<Rightarrow> request \<Rightarrow> response option) \<Rightarrow> (string \<Rightarrow> jsval option) \<Rightarrow> int \<Rightarrow> platform" where
  "test_platform net dec now =
     \<lparr>network = net, atob_json_parse = dec, number_to_string = (\<lambda>n. ''0''),
      string_to_number = (\<lambda>s. None), double_round = Finite, date_now = now\<rparr>"

definition answering :: "response \<Rightarrow> request list \<Rightarrow> request \<Rightarrow> response option" where
  "answering r sent req = Some r"

definition offline :: "request list \<Rightarrow> request \<Rightarrow> response option" where
  "offline sent req = None"

definition undecodable :: "string \<Rightarrow> jsval option" where
  "undecodable s = None"

definition logged_in :: browser where
  "logged_in =
     \<lparr>local_storage = [''access_token'' \<mapsto> ''h.p.s'', ''refresh_token'' \<mapsto> ''R''],
      session_storage = Map.empty, requests = [], console = []\<rparr>"

definition unauthorized :: response where
  "unauthorized = \<lparr>status = 401, json = None\<rparr>"

definition issued :: "string \<Rightarrow> response" where
  "issued x = \<lparr>status = 200, json = Some (JObj [(''access'', JStr x)])\<rparr>"

text \<open>The refresh endpoint issues \<^verbatim>\<open>X\<close>; every other endpoint answers 401.\<close>

definition stale_resource :: "request list \<Rightarrow> request \<Rightarrow> response option" where
  "stale_resource sent req = (if fst req = refresh_url then Some (issued ''X'') else Some unauthorized)"

definition get_options :: options where
  "get_options = \<lparr>req_method = Some ''GET'', headers = Map.empty, body = None\<rparr>"

definition logged_out :: browser where
  "logged_out = \<lparr>local_storage = Map.empty, session_storage = Map.empty, requests = [], console = []\<rparr>"

definition no_content :: response where
  "no_content = \<lparr>status = 200, json = None\<rparr>"

definition null_body :: response where
  "null_body = \<lparr>status = 200, json = Some JNull\<rparr>"

definition empty_object :: response where
  "empty_object = \<lparr>status = 200, json = Some (JObj [])\<rparr>"

definition tokens_issued :: response where
  "tokens_issued =
     \<lparr>status = 200, json = Some (JObj [(''access'', JStr ''A''), (''refresh'', JStr ''B'')])\<rparr>"

definition bad_credentials :: response where
  "bad_credentials = \<lparr>status = 400, json = Some (JObj [(''detail'', JStr ''bad credentials'')])\<rparr>"

definition unprintable_access :: response where
  "unprintable_access =
     \<lparr>status = 200, json = Some (JObj [(''access'', JObj [(''toString'', JNull)])])\<rparr>"


section \<open>Properties\<close>

subsection \<open>Refresh and retry in auth-utils.js\<close>

text \<open>What a refresh that returns \<^verbatim>\<open>true\<close> has done.\<close>

lemma refresh_True:
  assumes "refreshAccessToken env s = (s2, True)"
  shows "\<exists>rt r data a access.
           local_storage s ''refresh_token'' = Some rt \<and>
           network env (requests s) (refresh_request refresh_url rt) = Some r \<and> ok r \<and>
           json r = Some data \<and> get_prop data ''access'' = Inr a \<and>
           to_string (number_to_string env) a = Inr access \<and>
           s2 = setItem ''access_token'' access
                  (s\<lparr>requests := requests s @ [refresh_request refresh_url rt]\<rparr>)"
  using assms
  by (auto simp: refreshAccessToken_def fetch_def split: option.splits if_splits sum.splits)

text \<open>
  C1. When the first response is a 401 and the refresh, called in the browser as that
  first call left it, returns \<^verbatim>\<open>true\<close> with the browser \<open>st2\<close>, exactly three calls
  of \<^verbatim>\<open>fetch\<close> are made: the request, the refresh, and the request once more. The
  third has the address, the method and the body of the first, and its headers are
  those of the first with \<^verbatim>\<open>Authorization\<close> replaced by \<^verbatim>\<open>Bearer\<close> and the access
  token that the refresh took from its response and stored. The outcome of that third
  call is the outcome of \<^verbatim>\<open>authenticatedFetch\<close>, whatever its status: a second 401 is
  returned as it is, and there is no third call for the resource.
\<close>

theorem authenticatedFetch_retries_once:
  assumes "local_storage st ''access_token'' = Some token" and "token \<noteq> []"
    and "network env (requests st)
           (u, opts\<lparr>headers := [''Authorization'' \<mapsto> ''Bearer '' @ token,
                                 ''Content-Type'' \<mapsto> ''application/json''] ++ headers opts\<rparr>)
         = Some first"
    and "status first = 401"
    and "refreshAccessToken env
           (console_log ''Token expired, attempting refresh...''
              (st\<lparr>requests := requests st @
                 [(u, opts\<lparr>headers := [''Authorization'' \<mapsto> ''Bearer '' @ token,
                                        ''Content-Type'' \<mapsto> ''application/json''] ++ headers opts\<rparr>)]\<rparr>))
         = (st2, True)"
  shows "\<exists>rt r data a newToken retry.
           local_storage st ''refresh_token'' = Some rt \<and>
           network env
             (requests st @
                [(u, opts\<lparr>headers := [''Authorization'' \<mapsto> ''Bearer '' @ token,
                                       ''Content-Type'' \<mapsto> ''application/json''] ++ headers opts\<rparr>)])
             (refresh_request refresh_url rt) = Some r \<and>
           json r = Some data \<and> get_prop data ''access'' = Inr a \<and>
           to_string (number_to_string env) a = Inr newToken \<and>
           local_storage st2 ''access_token'' = Some newToken \<and>
           retry = opts\<lparr>headers :=
                     ([''Authorization'' \<mapsto> ''Bearer '' @ token,
                       ''Content-Type'' \<mapsto> ''application/json''] ++ headers opts)
                     (''Authorization'' \<mapsto> ''Bearer '' @ newToken)\<rparr> \<and>
           headers retry ''Authorization'' = Some (''Bearer '' @ newToken) \<and>
           req_method retry = req_method opts \<and> body retry = body opts \<and>
           requests (fst (authenticatedFetch env u opts st)) =
             requests st @
               [(u, opts\<lparr>headers := [''Authorization'' \<mapsto> ''Bearer '' @ token,
                                      ''Content-Type'' \<mapsto> ''application/json''] ++ headers opts\<rparr>),
                (refresh_url,
                 \<lparr>req_method = Some ''POST'',
                  headers = [''Content-Type'' \<mapsto> ''application/json''],
                  body = Some (Stringify (JObj [(''refresh'', JStr rt)]))\<rparr>),
                (u, retry)] \<and>
           snd (authenticatedFetch env u opts st) =
             (case network env (requests st2) (u, retry) of
                None \<Rightarrow> Inl FetchFailed
              | Some second \<Rightarrow> Inr second)"
proof -
  let ?ro = "opts\<lparr>headers := [''Authorization'' \<mapsto> ''Bearer '' @ token,
                                ''Content-Type'' \<mapsto> ''application/json''] ++ headers opts\<rparr>"
  let ?st1 = "console_log ''Token expired, attempting refresh...''
              (st\<lparr>requests := requests st @ [(u, ?ro)]\<rparr>)"
  have ro: "requestOptions token opts = ?ro"
    by (simp add: requestOptions_def)
  from refresh_True[OF assms(5)] obtain rt r data a newToken where
    r: "local_storage ?st1 ''refresh_token'' = Some rt"
       "network env (requests ?st1) (refresh_request refresh_url rt) = Some r"
       "json r = Some data" "get_prop data ''access'' = Inr a"
       "to_string (number_to_string env) a = Inr newToken"
    and st2: "st2 = setItem ''access_token'' newToken
                  (?st1\<lparr>requests := requests ?st1 @ [refresh_request refresh_url rt]\<rparr>)"
    by blast
  have tok: "local_storage st2 ''access_token'' = Some newToken"
    using st2 by (simp add: setItem_def)
  have af: "authenticatedFetch env u opts st =
      (case fetch env (u, ?ro\<lparr>headers := (headers ?ro)(''Authorization'' \<mapsto>
                          ''Bearer '' @ template (local_storage st2 ''access_token''))\<rparr>) st2 of
         (st3, None) \<Rightarrow> (console_log ''Authenticated fetch error:'' st3, Inl FetchFailed)
       | (st3, Some second) \<Rightarrow> (st3, Inr second))"
    using assms
    by (simp add: authenticatedFetch_def ro setAuthorization_def fetch_def Let_def)
  show ?thesis
    apply (rule exI[of _ rt], rule exI[of _ r], rule exI[of _ data], rule exI[of _ a],
           rule exI[of _ newToken])
    using r tok
    by (simp add: af fetch_def st2 setItem_def console_log_def refresh_request_def
          split: option.splits)
qed

text \<open>
  The resource answers 401 before and after a refresh that issues \<^verbatim>\<open>X\<close>: three
  calls, the first with \<^verbatim>\<open>Bearer h.p.s\<close>, the last one with \<^verbatim>\<open>Bearer X\<close>, and the
  second 401 is the result.
\<close>

theorem authenticatedFetch_retries_once_witness:
  "snd (authenticatedFetch (test_platform stale_resource undecodable 0) ''/api/me/'' get_options logged_in)
     = Inr unauthorized
   \<and> map fst (requests (fst (authenticatedFetch (test_platform stale_resource undecodable 0)
                                ''/api/me/'' get_options logged_in)))
     = [''/api/me/'', refresh_url, ''/api/me/'']
   \<and> headers (snd (hd (requests (fst (authenticatedFetch (test_platform stale_resource undecodable 0)
                                ''/api/me/'' get_options logged_in))))) ''Authorization''
     = Some ''Bearer h.p.s''
   \<and> headers (snd (last (requests (fst (authenticatedFetch (test_platform stale_resource undecodable 0)
                                ''/api/me/'' get_options logged_in))))) ''Authorization''
     = Some ''Bearer X''
   \<and> req_method (snd (last (requests (fst (authenticatedFetch (test_platform stale_resource undecodable 0)
                                ''/api/me/'' get_options logged_in)))))
     = Some ''GET''"
proof -
  let ?env = "test_platform stale_resource undecodable 0"
  let ?ro = "get_options\<lparr>headers := [''Authorization'' \<mapsto> ''Bearer '' @ ''h.p.s'',
                                ''Content-Type'' \<mapsto> ''application/json''] ++ headers get_options\<rparr>"
  let ?st1 = "console_log ''Token expired, attempting refresh...''
              (logged_in\<lparr>requests := requests logged_in @ [(''/api/me/'', ?ro)]\<rparr>)"
  have h1: "local_storage logged_in ''access_token'' = Some ''h.p.s''"
    by (simp add: logged_in_def)
  have h2: "''h.p.s'' \<noteq> []" by simp
  have h3: "network ?env (requests logged_in) (''/api/me/'', ?ro) = Some unauthorized"
    by (simp add: test_platform_def stale_resource_def refresh_url_def)
  have h4: "status unauthorized = 401" by (simp add: unauthorized_def)
  have h5: "refreshAccessToken ?env ?st1 = (fst (refreshAccessToken ?env ?st1), True)"
    by (simp add: refreshAccessToken_def fetch_def test_platform_def stale_resource_def
        logged_in_def console_log_def refresh_request_def issued_def ok_def)
  from authenticatedFetch_retries_once[OF h1 h2 h3 h4 h5]
  show ?thesis
    by (auto simp: refreshAccessToken_def fetch_def test_platform_def stale_resource_def
        logged_in_def console_log_def refresh_request_def issued_def ok_def setItem_def
        refresh_url_def get_options_def)
qed

text \<open>
  C3. With a refresh token stored, a refresh that is answered with a status outside
  200..299 returns \<^verbatim>\<open>false\<close> and leaves neither token in the store.
\<close>

theorem refresh_rejected_clears_both:
  assumes "local_storage st ''refresh_token'' = Some rt" and "rt \<noteq> []"
    and "network env (requests st) (refresh_request refresh_url rt) = Some r"
    and "\<not> ok r"
  shows "snd (refreshAccessToken env st) = False
       \<and> local_storage (fst (refreshAccessToken env st)) ''access_token'' = None
       \<and> local_storage (fst (refreshAccessToken env st)) ''refresh_token'' = None"
  using assms by (simp add: refreshAccessToken_def fetch_def removeItem_def)

text \<open>
  The refresh endpoint answers 401 to a browser that holds both tokens.
\<close>

theorem refresh_rejected_clears_both_witness:
  "local_storage logged_in ''access_token'' = Some ''h.p.s''
   \<and> local_storage logged_in ''refresh_token'' = Some ''R''
   \<and> \<not> ok unauthorized
   \<and> snd (refreshAccessToken (test_platform (answering unauthorized) undecodable 0) logged_in) = False
   \<and> local_storage (fst (refreshAccessToken (test_platform (answering unauthorized) undecodable 0) logged_in))
        ''access_token'' = None
   \<and> local_storage (fst (refreshAccessToken (test_platform (answering unauthorized) undecodable 0) logged_in))
        ''refresh_token'' = None"
  using refresh_rejected_clears_both
          [of logged_in "''R''" "test_platform (answering unauthorized) undecodable 0" unauthorized]
  by (simp add: logged_in_def test_platform_def answering_def unauthorized_def ok_def)

text \<open>
  C4. With a refresh token stored, a refresh that is answered with a 2xx status and an
  object whose \<^verbatim>\<open>access\<close> is the string \<open>x\<close> returns \<^verbatim>\<open>true\<close>; afterwards the
  local storage is the old one with \<^verbatim>\<open>access_token\<close> set to \<open>x\<close>, so the refresh
  token and every other key are as before.
\<close>

theorem refresh_success_stores_access_only:
  assumes "local_storage st ''refresh_token'' = Some rt" and "rt \<noteq> []"
    and "network env (requests st) (refresh_request refresh_url rt) = Some r"
    and "ok r" and "json r = Some (JObj props)" and "map_of props ''access'' = Some (JStr x)"
  shows "snd (refreshAccessToken env st) = True
       \<and> local_storage (fst (refreshAccessToken env st)) = (local_storage st)(''access_token'' \<mapsto> x)
       \<and> local_storage (fst (refreshAccessToken env st)) ''refresh_token'' = Some rt
       \<and> session_storage (fst (refreshAccessToken env st)) = session_storage st"
  using assms by (simp add: refreshAccessToken_def fetch_def setItem_def)

text \<open>
  The refresh endpoint answers 200 with \<^verbatim>\<open>{access: "X"}\<close>.
\<close>

theorem refresh_success_stores_access_only_witness:
  "status (issued ''X'') = 200
   \<and> snd (refreshAccessToken (test_platform (answering (issued ''X'')) undecodable 0) logged_in) = True
   \<and> local_storage (fst (refreshAccessToken (test_platform (answering (issued ''X'')) undecodable 0) logged_in))
        ''access_token'' = Some ''X''
   \<and> local_storage (fst (refreshAccessToken (test_platform (answering (issued ''X'')) undecodable 0) logged_in))
        ''refresh_token'' = Some ''R''"
  using refresh_success_stores_access_only
          [of logged_in "''R''" "test_platform (answering (issued ''X'')) undecodable 0" "issued ''X''"
              "[(''access'', JStr ''X'')]" "''X''"]
  by (simp add: logged_in_def test_platform_def answering_def issued_def ok_def)

subsection \<open>The body of a successful refresh response\<close>

lemma refreshAccessToken_2xx:
  assumes "local_storage st ''refresh_token'' = Some rt" and "rt \<noteq> []"
    and "network env (requests st) (refresh_request refresh_url rt) = Some r" and "ok r"
  shows "json r = Some data \<and> get_prop data ''access'' = Inr a
           \<and> to_string (number_to_string env) a = Inr s \<longrightarrow>
           snd (refreshAccessToken env st) = True
           \<and> local_storage (fst (refreshAccessToken env st))
               = (local_storage st)(''access_token'' \<mapsto> s)"
    and "json r = Some (JObj props) \<and> map_of props ''access'' = None \<longrightarrow>
           snd (refreshAccessToken env st) = True
           \<and> local_storage (fst (refreshAccessToken env st)) ''access_token'' = Some ''undefined''"
    and "json r = None \<or> json r = Some JNull
           \<or> (json r = Some data \<and> get_prop data ''access'' = Inr a
                \<and> to_string (number_to_string env) a = Inl x) \<longrightarrow>
           snd (refreshAccessToken env st) = False
           \<and> local_storage (fst (refreshAccessToken env st)) = local_storage st"
  using assms
  by (auto simp: refreshAccessToken_def fetch_def setItem_def console_log_def)

lemma AuthManager_refreshAccessToken_2xx:
  assumes "network env (requests st) (AuthManager_refresh_request (AuthManager base csrf) rt) = Some r"
    and "ok r"
  shows "json r = Some data \<and> get_prop data ''access'' = Inr a
           \<and> to_string (number_to_string env) a = Inr s \<longrightarrow>
           snd (AuthManager_refreshAccessToken env (AuthManager base csrf) rt st) = True
           \<and> local_storage (fst (AuthManager_refreshAccessToken env (AuthManager base csrf) rt st))
               = (local_storage st)(''access_token'' \<mapsto> s)"
    and "json r = Some (JObj props) \<and> map_of props ''access'' = None \<longrightarrow>
           snd (AuthManager_refreshAccessToken env (AuthManager base csrf) rt st) = True
           \<and> local_storage (fst (AuthManager_refreshAccessToken env (AuthManager base csrf) rt st))
                ''access_token'' = Some ''undefined''"
    and "json r = None \<or> json r = Some JNull
           \<or> (json r = Some data \<and> get_prop data ''access'' = Inr a
                \<and> to_string (number_to_string env) a = Inl x) \<longrightarrow>
           snd (AuthManager_refreshAccessToken env (AuthManager base csrf) rt st) = False
           \<and> local_storage (fst (AuthManager_refreshAccessToken env (AuthManager base csrf) rt st))
               = local_storage st"
  using assms
  by (auto simp: AuthManager_refreshAccessToken_def fetch_def setItem_def console_log_def
        AuthManager_def)

text \<open>
  C10, as the code has it. For a 2xx answer, \<^verbatim>\<open>refreshAccessToken\<close> of auth-utils.js
  and of \<^verbatim>\<open>AuthManager\<close> return \<^verbatim>\<open>true\<close> exactly when the body parses to a value on
  which \<^verbatim>\<open>.access\<close> can be read and that field has a string; they store that string,
  which is \<^verbatim>\<open>undefined\<close> when an object has no such field. A body that does not parse
  or parses to \<^verbatim>\<open>null\<close>, and a field whose conversion to a string throws, make them
  return \<^verbatim>\<open>false\<close> with the storage as it was.
\<close>

theorem refresh_2xx_body_shapes:
  assumes "ok r"
  shows "(local_storage st ''refresh_token'' = Some rt \<and> rt \<noteq> [] \<and>
          network env (requests st) (refresh_request refresh_url rt) = Some r \<longrightarrow>
            (json r = Some data \<and> get_prop data ''access'' = Inr a
               \<and> to_string (number_to_string env) a = Inr s \<longrightarrow>
               snd (refreshAccessToken env st) = True
               \<and> local_storage (fst (refreshAccessToken env st))
                   = (local_storage st)(''access_token'' \<mapsto> s))
          \<and> (json r = Some (JObj props) \<and> map_of props ''access'' = None \<longrightarrow>
               snd (refreshAccessToken env st) = True
               \<and> local_storage (fst (refreshAccessToken env st)) ''access_token'' = Some ''undefined'')
          \<and> (json r = None \<or> json r = Some JNull
               \<or> (json r = Some data \<and> get_prop data ''access'' = Inr a
                    \<and> to_string (number_to_string env) a = Inl x) \<longrightarrow>
               snd (refreshAccessToken env st) = False
               \<and> local_storage (fst (refreshAccessToken env st)) = local_storage st))
       \<and> (network env (requests st) (AuthManager_refresh_request (AuthManager base csrf) rt) = Some r \<longrightarrow>
            (json r = Some data \<and> get_prop data ''access'' = Inr a
               \<and> to_string (number_to_string env) a = Inr s \<longrightarrow>
               snd (AuthManager_refreshAccessToken env (AuthManager base csrf) rt st) = True
               \<and> local_storage (fst (AuthManager_refreshAccessToken env (AuthManager base csrf) rt st))
                   = (local_storage st)(''access_token'' \<mapsto> s))
          \<and> (json r = Some (JObj props) \<and> map_of props ''access'' = None \<longrightarrow>
               snd (AuthManager_refreshAccessToken env (AuthManager base csrf) rt st) = True
               \<and> local_storage (fst (AuthManager_refreshAccessToken env (AuthManager base csrf) rt st))
                    ''access_token'' = Some ''undefined'')
          \<and> (json r = None \<or> json r = Some JNull
               \<or> (json r = Some data \<and> get_prop data ''access'' = Inr a
                    \<and> to_string (number_to_string env) a = Inl x) \<longrightarrow>
               snd (AuthManager_refreshAccessToken env (AuthManager base csrf) rt st) = False
               \<and> local_storage (fst (AuthManager_refreshAccessToken env (AuthManager base csrf) rt st))
                   = local_storage st))"
  using assms refreshAccessToken_2xx [of st rt env r] AuthManager_refreshAccessToken_2xx [of env st base csrf rt r]
  by blast

text \<open>
  A 200 answer with body \<^verbatim>\<open>{}\<close> stores \<^verbatim>\<open>undefined\<close>; a 200 answer with body
  \<^verbatim>\<open>null\<close>, and one whose \<^verbatim>\<open>access\<close> is \<^verbatim>\<open>{toString: null}\<close>, do not.
\<close>

theorem refresh_2xx_body_shapes_witness:
  "ok empty_object
   \<and> snd (refreshAccessToken (test_platform (answering empty_object) undecodable 0) logged_in) = True
   \<and> local_storage (fst (refreshAccessToken (test_platform (answering empty_object) undecodable 0) logged_in))
        ''access_token'' = Some ''undefined''
   \<and> snd (AuthManager_refreshAccessToken (test_platform (answering empty_object) undecodable 0)
          (AuthManager ''/api'' ''c'') ''R'' logged_in) = True
   \<and> local_storage (fst (AuthManager_refreshAccessToken (test_platform (answering empty_object) undecodable 0)
          (AuthManager ''/api'' ''c'') ''R'' logged_in)) ''access_token'' = Some ''undefined''
   \<and> snd (refreshAccessToken (test_platform (answering null_body) undecodable 0) logged_in) = False
   \<and> local_storage (fst (refreshAccessToken (test_platform (answering null_body) undecodable 0) logged_in))
        = local_storage logged_in
   \<and> snd (refreshAccessToken (test_platform (answering unprintable_access) undecodable 0) logged_in) = False
   \<and> local_storage (fst (refreshAccessToken (test_platform (answering unprintable_access) undecodable 0)
          logged_in)) = local_storage logged_in"
  using
    refresh_2xx_body_shapes
      [where r = empty_object and st = logged_in and rt = "''R''"
         and env = "test_platform (answering empty_object) undecodable 0"
         and data = "JObj []" and a = Undefined and s = "''undefined''" and props = "[]"
         and base = "''/api''" and csrf = "''c''"]
    refresh_2xx_body_shapes
      [where r = null_body and st = logged_in and rt = "''R''"
         and env = "test_platform (answering null_body) undecodable 0"
         and base = "''/api''" and csrf = "''c''"]
    refresh_2xx_body_shapes
      [where r = unprintable_access and st = logged_in and rt = "''R''"
         and env = "test_platform (answering unprintable_access) undecodable 0"
         and data = "JObj [(''access'', JObj [(''toString'', JNull)])]"
         and a = "JObj [(''toString'', JNull)]" and x = TypeError
         and base = "''/api''" and csrf = "''c''"]
  by (simp add: test_platform_def answering_def empty_object_def null_body_def
        unprintable_access_def ok_def logged_in_def)

text \<open>
  C10 as stated fails: a 200 answer whose body is the JSON value \<^verbatim>\<open>null\<close>, or is not
  JSON at all, or whose \<^verbatim>\<open>access\<close> is an object with a \<^verbatim>\<open>toString\<close> property of its
  own, makes the refresh return \<^verbatim>\<open>false\<close>.
\<close>

theorem refresh_null_body_counterexample:
  "status null_body = 200
   \<and> json null_body = Some JNull
   \<and> local_storage logged_in ''refresh_token'' = Some ''R''
   \<and> snd (refreshAccessToken (test_platform (answering null_body) undecodable 0) logged_in) = False
   \<and> snd (AuthManager_refreshAccessToken (test_platform (answering null_body) undecodable 0)
          (AuthManager ''/api'' ''c'') ''R'' logged_in) = False
   \<and> snd (refreshAccessToken (test_platform (answering no_content) undecodable 0) logged_in) = False
   \<and> status unprintable_access = 200
   \<and> json unprintable_access = Some (JObj [(''access'', JObj [(''toString'', JNull)])])
   \<and> snd (refreshAccessToken (test_platform (answering unprintable_access) undecodable 0) logged_in) = False
   \<and> snd (AuthManager_refreshAccessToken (test_platform (answering unprintable_access) undecodable 0)
          (AuthManager ''/api'' ''c'') ''R'' logged_in) = False"
  by (simp add: refreshAccessToken_def AuthManager_refreshAccessToken_def fetch_def
        test_platform_def answering_def null_body_def no_content_def unprintable_access_def
        ok_def logged_in_def)

subsection \<open>A refresh call that throws\<close>

text \<open>
  C2, as the code has it. With a refresh token stored and a refresh call that throws,
  \<^verbatim>\<open>refreshAccessToken\<close> of auth-utils.js returns \<^verbatim>\<open>false\<close> and leaves both storage
  areas as they were, whereas the navigation bar's \<^verbatim>\<open>tryRefreshToken\<close> returns with
  both tokens removed from the local storage.
\<close>

theorem refresh_network_failure:
  assumes "local_storage st ''refresh_token'' = Some rt" and "rt \<noteq> []"
  shows "(network env (requests st) (refresh_request refresh_url rt) = None \<longrightarrow>
            snd (refreshAccessToken env st) = False \<and>
            local_storage (fst (refreshAccessToken env st)) = local_storage st \<and>
            session_storage (fst (refreshAccessToken env st)) = session_storage st)
       \<and> (network env (requests st) (refresh_request ''/api/token/refresh/'' rt) = None \<longrightarrow>
            tryRefreshToken (Suc n) env st \<noteq> None \<and>
            local_storage (the (tryRefreshToken (Suc n) env st)) =
              (local_storage st)(''access_token'' := None, ''refresh_token'' := None))"
  using assms
  by (simp add: refreshAccessToken_def fetch_def console_log_def clearTokensAndShowAuth_def removeItem_def)

text \<open>
  A browser holding both tokens, with no network.
\<close>

theorem refresh_network_failure_witness:
  "local_storage logged_in ''refresh_token'' = Some ''R''
   \<and> network (test_platform offline undecodable 0) (requests logged_in) (refresh_request refresh_url ''R'') = None
   \<and> snd (refreshAccessToken (test_platform offline undecodable 0) logged_in) = False
   \<and> local_storage (fst (refreshAccessToken (test_platform offline undecodable 0) logged_in)) = local_storage logged_in
   \<and> local_storage (the (tryRefreshToken (Suc 0) (test_platform offline undecodable 0) logged_in)) ''access_token'' = None"
  using refresh_network_failure [of logged_in "''R''" "test_platform offline undecodable 0" 0]
  by (simp add: logged_in_def test_platform_def offline_def)

text \<open>
  C2 as stated fails for \<^verbatim>\<open>tryRefreshToken\<close>: the refresh call throws, and both
  tokens are gone afterwards.
\<close>

theorem tryRefreshToken_network_failure_counterexample:
  "local_storage logged_in ''access_token'' = Some ''h.p.s''
   \<and> local_storage logged_in ''refresh_token'' = Some ''R''
   \<and> network (test_platform offline undecodable 0) (requests logged_in)
        (refresh_request ''/api/token/refresh/'' ''R'') = None
   \<and> tryRefreshToken (Suc 0) (test_platform offline undecodable 0) logged_in \<noteq> None
   \<and> local_storage (the (tryRefreshToken (Suc 0) (test_platform offline undecodable 0) logged_in))
        ''access_token'' = None
   \<and> local_storage (the (tryRefreshToken (Suc 0) (test_platform offline undecodable 0) logged_in))
        ''refresh_token'' = None"
  by (simp add: logged_in_def test_platform_def offline_def fetch_def console_log_def
        clearTokensAndShowAuth_def removeItem_def)

subsection \<open>A request without an access token\<close>

text \<open>
  C6, as the code has it. With no access token stored, \<^verbatim>\<open>authenticatedFetch\<close> of
  auth-utils.js throws \<^verbatim>\<open>No access token available\<close> and the browser is unchanged:
  no call of \<^verbatim>\<open>fetch\<close>. The chat-history page's \<^verbatim>\<open>authenticatedFetch\<close>, with no
  access token in either storage area, sends the request once, without an
  \<^verbatim>\<open>Authorization\<close> header of its own, makes no refresh call and hands back what that
  one call gave.
\<close>

theorem authenticatedFetch_without_token:
  "(\<not> present (local_storage st ''access_token'') \<longrightarrow>
      authenticatedFetch env u opts st = (st, Inl (Error ''No access token available'')))
   \<and> (\<not> present (getAuthToken st) \<longrightarrow>
        requests (fst (chat_authenticatedFetch env u opts st)) =
          requests st @ [(u, opts\<lparr>headers := [''Content-Type'' \<mapsto> ''application/json''] ++ headers opts\<rparr>)]
        \<and> snd (chat_authenticatedFetch env u opts st) =
            (case network env (requests st)
                    (u, opts\<lparr>headers := [''Content-Type'' \<mapsto> ''application/json''] ++ headers opts\<rparr>) of
               None \<Rightarrow> Inl FetchFailed
             | Some r \<Rightarrow> Inr r)
        \<and> local_storage (fst (chat_authenticatedFetch env u opts st)) = local_storage st
        \<and> session_storage (fst (chat_authenticatedFetch env u opts st)) = session_storage st)"
proof -
  have a: "authenticatedFetch env u opts st = (st, Inl (Error ''No access token available''))"
    if "\<not> present (local_storage st ''access_token'')"
    using that
    by (cases "local_storage st ''access_token''") (simp_all add: authenticatedFetch_def)
  have b: "chat_authenticatedFetch env u opts st =
      (case fetch env (u, opts\<lparr>headers := [''Content-Type'' \<mapsto> ''application/json''] ++ headers opts\<rparr>) st of
         (st1, None) \<Rightarrow> (st1, Inl FetchFailed)
       | (st1, Some response) \<Rightarrow> (st1, Inr response))"
    if "\<not> present (getAuthToken st)"
    using that by (simp add: chat_authenticatedFetch_def Let_def split: option.splits prod.splits)
  show ?thesis
    using a by (auto simp: b fetch_def split: option.splits)
qed

text \<open>
  An empty browser and an endpoint that answers 200.
\<close>

theorem authenticatedFetch_without_token_witness:
  "\<not> present (local_storage logged_out ''access_token'')
   \<and> \<not> present (getAuthToken logged_out)
   \<and> authenticatedFetch (test_platform (answering no_content) undecodable 0) ''/api/chat-history/''
        get_options logged_out = (logged_out, Inl (Error ''No access token available''))
   \<and> snd (chat_authenticatedFetch (test_platform (answering no_content) undecodable 0)
        ''/api/chat-history/'' get_options logged_out) = Inr no_content"
  using authenticatedFetch_without_token
     [of logged_out "test_platform (answering no_content) undecodable 0" "''/api/chat-history/''" get_options]
  by (simp add: logged_out_def getAuthToken_def str_or_def test_platform_def answering_def)

text \<open>
  C6 as stated fails for the chat-history page: with nothing stored, one request goes
  out and its response is the result.
\<close>

theorem chat_authenticatedFetch_without_token_counterexample:
  "local_storage logged_out ''access_token'' = None
   \<and> session_storage logged_out ''access_token'' = None
   \<and> requests logged_out = []
   \<and> requests (fst (chat_authenticatedFetch (test_platform (answering no_content) undecodable 0)
        ''/api/chat-history/'' get_options logged_out))
       = [(''/api/chat-history/'',
           get_options\<lparr>headers := [''Content-Type'' \<mapsto> ''application/json'']\<rparr>)]
   \<and> snd (chat_authenticatedFetch (test_platform (answering no_content) undecodable 0)
        ''/api/chat-history/'' get_options logged_out) = Inr no_content"
  by (simp add: chat_authenticatedFetch_def getAuthToken_def str_or_def fetch_def Let_def
        logged_out_def test_platform_def answering_def no_content_def get_options_def)

subsection \<open>Expiry\<close>
















text \<open>
  C9, as the code has it. Finding that the stored access token cannot be decoded,
  \<^verbatim>\<open>getCurrentUserInfo\<close> returns \<^verbatim>\<open>null\<close> and \<^verbatim>\<open>isTokenExpired\<close> returns
  \<^verbatim>\<open>true\<close>, and neither changes the storage or calls the network: both tokens stay.
\<close>

theorem undecodable_token_is_kept:
  assumes "local_storage st ''access_token'' = Some token" and "token \<noteq> []"
    and "atob_json_parse env (payload_segment token) = None"
  shows "snd (getCurrentUserInfo env st) = None
       \<and> snd (isTokenExpired env st) = Inr True
       \<and> local_storage (fst (getCurrentUserInfo env st)) = local_storage st
       \<and> local_storage (fst (isTokenExpired env st)) = local_storage st
       \<and> session_storage (fst (isTokenExpired env st)) = session_storage st
       \<and> requests (fst (isTokenExpired env st)) = requests st"
  using assms by (simp add: isTokenExpired_def getCurrentUserInfo_def console_log_def)

text \<open>
  A browser holding both tokens and a decoder that rejects everything.
\<close>

theorem undecodable_token_is_kept_witness:
  "local_storage logged_in ''access_token'' = Some ''h.p.s''
   \<and> atob_json_parse (test_platform offline undecodable 0) (payload_segment ''h.p.s'') = None
   \<and> snd (isTokenExpired (test_platform offline undecodable 0) logged_in) = Inr True
   \<and> local_storage (fst (isTokenExpired (test_platform offline undecodable 0) logged_in))
        = local_storage logged_in"
  using undecodable_token_is_kept [of logged_in "''h.p.s''" "test_platform offline undecodable 0"]
  by (simp add: logged_in_def test_platform_def undecodable_def)

text \<open>
  C9 as stated fails: the undecodable access token and the refresh token are both
  still stored after the check.
\<close>

theorem undecodable_token_counterexample:
  "local_storage logged_in ''access_token'' = Some ''h.p.s''
   \<and> local_storage logged_in ''refresh_token'' = Some ''R''
   \<and> atob_json_parse (test_platform offline undecodable 0) (payload_segment ''h.p.s'') = None
   \<and> snd (getCurrentUserInfo (test_platform offline undecodable 0) logged_in) = None
   \<and> snd (isTokenExpired (test_platform offline undecodable 0) logged_in) = Inr True
   \<and> local_storage (fst (getCurrentUserInfo (test_platform offline undecodable 0) logged_in))
        ''access_token'' = Some ''h.p.s''
   \<and> local_storage (fst (getCurrentUserInfo (test_platform offline undecodable 0) logged_in))
        ''refresh_token'' = Some ''R''
   \<and> local_storage (fst (isTokenExpired (test_platform offline undecodable 0) logged_in))
        ''access_token'' = Some ''h.p.s''
   \<and> local_storage (fst (isTokenExpired (test_platform offline undecodable 0) logged_in))
        ''refresh_token'' = Some ''R''"
  by (simp add: isTokenExpired_def getCurrentUserInfo_def console_log_def
        logged_in_def test_platform_def undecodable_def)

subsection \<open>Login and logout of the AuthManager\<close>

text \<open>
  C7, as the code has it. A 2xx answer with string fields \<^verbatim>\<open>access\<close> and
  \<^verbatim>\<open>refresh\<close> stores both and gives \<^verbatim>\<open>success: true\<close> with the welcome message. An
  answer outside 2xx with a non-empty string \<^verbatim>\<open>detail\<close> gives \<^verbatim>\<open>success: false\<close> with
  the message \<^verbatim>\<open>Login failed: \<close> followed by the detail, and leaves both storage areas
  as they were.
\<close>

theorem login_outcomes:
  assumes "network env (requests st) (login_request (AuthManager base csrf) em password) = Some res"
    and "json res = Some (JObj props)"
  shows "(ok res \<and> map_of props ''access'' = Some (JStr a) \<and> map_of props ''refresh'' = Some (JStr r) \<longrightarrow>
            snd (login env (AuthManager base csrf) em password st)
              = \<lparr>success = True, message = ''Login successful! Welcome back.''\<rparr>
            \<and> local_storage (fst (login env (AuthManager base csrf) em password st))
              = (local_storage st)(''access_token'' \<mapsto> a, ''refresh_token'' \<mapsto> r))
       \<and> (\<not> ok res \<and> map_of props ''detail'' = Some (JStr d) \<and> d \<noteq> [] \<longrightarrow>
            snd (login env (AuthManager base csrf) em password st)
              = \<lparr>success = False, message = ''Login failed: '' @ d\<rparr>
            \<and> local_storage (fst (login env (AuthManager base csrf) em password st)) = local_storage st
            \<and> session_storage (fst (login env (AuthManager base csrf) em password st)) = session_storage st)"
  using assms
  by (simp add: login_def fetch_def AuthManager_def setItem_def js_or_def)

text \<open>
  A login answered with 200 and two tokens, and one answered with 400 and
  \<^verbatim>\<open>{detail: "bad credentials"}\<close> in a browser that already holds tokens.
\<close>

theorem login_outcomes_witness:
  "snd (login (test_platform (answering tokens_issued) undecodable 0) (AuthManager ''/api'' ''c'')
          ''a@b.com'' ''pw'' logged_out)
     = \<lparr>success = True, message = ''Login successful! Welcome back.''\<rparr>
   \<and> local_storage (fst (login (test_platform (answering tokens_issued) undecodable 0)
          (AuthManager ''/api'' ''c'') ''a@b.com'' ''pw'' logged_out))
     = [''access_token'' \<mapsto> ''A'', ''refresh_token'' \<mapsto> ''B'']
   \<and> snd (login (test_platform (answering bad_credentials) undecodable 0) (AuthManager ''/api'' ''c'')
          ''a@b.com'' ''pw'' logged_in)
     = \<lparr>success = False, message = ''Login failed: bad credentials''\<rparr>
   \<and> local_storage (fst (login (test_platform (answering bad_credentials) undecodable 0)
          (AuthManager ''/api'' ''c'') ''a@b.com'' ''pw'' logged_in))
     = local_storage logged_in"
  using
    login_outcomes
      [where env = "test_platform (answering tokens_issued) undecodable 0" and st = logged_out
         and base = "''/api''" and csrf = "''c''" and em = "''a@b.com''" and password = "''pw''"
         and res = tokens_issued and props = "[(''access'', JStr ''A''), (''refresh'', JStr ''B'')]"
         and a = "''A''" and r = "''B''"]
    login_outcomes
      [where env = "test_platform (answering bad_credentials) undecodable 0" and st = logged_in
         and base = "''/api''" and csrf = "''c''" and em = "''a@b.com''" and password = "''pw''"
         and res = bad_credentials and props = "[(''detail'', JStr ''bad credentials'')]"
         and d = "''bad credentials''"]
  by (simp add: test_platform_def answering_def tokens_issued_def bad_credentials_def ok_def
        logged_out_def)

text \<open>
  C7 as stated fails: the message is not the bare detail.
\<close>

theorem login_message_counterexample:
  "status bad_credentials = 400
   \<and> json bad_credentials = Some (JObj [(''detail'', JStr ''bad credentials'')])
   \<and> snd (login (test_platform (answering bad_credentials) undecodable 0) (AuthManager ''/api'' ''c'')
          ''a@b.com'' ''pw'' logged_in)
       = \<lparr>success = False, message = ''Login failed: bad credentials''\<rparr>
   \<and> snd (login (test_platform (answering bad_credentials) undecodable 0) (AuthManager ''/api'' ''c'')
          ''a@b.com'' ''pw'' logged_in)
       \<noteq> \<lparr>success = False, message = ''bad credentials''\<rparr>"
  by (simp add: login_def fetch_def test_platform_def answering_def bad_credentials_def ok_def js_or_def)

text \<open>
  C8. Whatever the browser holds and whatever the network does with the logout call,
  \<^verbatim>\<open>logout\<close> ends with neither token stored and reports success.
\<close>

theorem logout_always_clears:
  "local_storage (fst (logout env (AuthManager base csrf) st)) ''access_token'' = None
   \<and> local_storage (fst (logout env (AuthManager base csrf) st)) ''refresh_token'' = None
   \<and> snd (logout env (AuthManager base csrf) st)
       = \<lparr>success = True, message = ''Logged out successfully''\<rparr>"
  by (simp add: logout_def Let_def clearTokens_def removeItem_def AuthManager_def)

text \<open>
  A browser holding both tokens whose logout call throws.
\<close>

theorem logout_always_clears_witness:
  "local_storage logged_in ''access_token'' = Some ''h.p.s''
   \<and> network (test_platform offline undecodable 0) (requests logged_in)
        (''/api/admin/logout/'',
         \<lparr>req_method = Some ''POST'',
          headers = [''Authorization'' \<mapsto> ''Bearer h.p.s'', ''X-CSRFToken'' \<mapsto> ''c''],
          body = None\<rparr>) = None
   \<and> local_storage (fst (logout (test_platform offline undecodable 0) (AuthManager ''/api'' ''c'') logged_in))
        ''access_token'' = None
   \<and> local_storage (fst (logout (test_platform offline undecodable 0) (AuthManager ''/api'' ''c'') logged_in))
        ''refresh_token'' = None"
  using logout_always_clears [of "test_platform offline undecodable 0" "''/api''" "''c''" logged_in]
  by (simp add: logged_in_def test_platform_def offline_def)

end
